theory Spec2Isabelle
  imports Main "HOL-Library.AList" "HOL-Library.Char_ord" "HOL-Library.List_Lexorder"
    "HOL-Library.Word"
begin

section \<open>The proposal registry of \<open>src/index.ts\<close>\<close>

subsection \<open>Data model\<close>

text \<open>
  A \<open>Principal\<close> is only ever compared through its textual form
  (\<open>p.toString() === q.toString()\<close>), and that form determines the principal, so a
  principal is modelled by its text.
\<close>

datatype Principal = Principal (toString: string)

type_synonym nat64 = "64 word"

text \<open>
  The payload of \<open>createProposal\<close> and \<open>updateProposal\<close>. Its fields are called
  \<open>title\<close> and \<open>description\<close> in the source; they carry a prefix here because the
  fields of \<open>Proposal\<close> have the same names.
\<close>

record ProposalPayload =
  payload_title :: string
  payload_description :: string

text \<open>
  The stored record. \<open>yesVotes\<close> and \<open>noVotes\<close> are JavaScript numbers that start at
  \<open>0\<close> and only change by \<open>+ 1\<close>; they are modelled as naturals, see \<open>plus_one\<close>.
  The field \<open>id\<close> of the source is \<open>id'\<close> here (\<open>id\<close> is the identity function of HOL).
\<close>

record Proposal =
  owner :: Principal
  id' :: string
  title :: string
  description :: string
  voters :: "string list"
  yesVotes :: nat
  noVotes :: nat
  created_at :: nat64
  updated_at :: "nat64 option"

text \<open>
  \<open>x + 1\<close> on a JavaScript number (a double) holding a natural \<open>x\<close>. Below \<open>2^53\<close> the
  sum is exact. From \<open>2^53\<close> up to \<open>2^54\<close> the doubles are the even naturals, \<open>x + 1\<close>
  lies halfway between \<open>x\<close> and \<open>x + 2\<close>, and the sum rounds to the one of the two whose
  significand \<open>x div 2\<close> or \<open>x div 2 + 1\<close> is even. From \<open>2^54\<close> on the doubles are at
  least four apart and the sum rounds back to \<open>x\<close>.
\<close>

definition plus_one :: "nat \<Rightarrow> nat" where
  "plus_one x =
     (if x < 2 ^ 53 then x + 1
      else if x < 2 ^ 54 \<and> x mod 4 = 2 then x + 2
      else x)"

text \<open>
  Every \<open>Result.Err\<close> of the source carries a message. The constructor names the kind
  of failure and its argument is the message of the source.
\<close>

datatype error =
    InvalidInput string
  | NotFound string
  | Forbidden string
  | AlreadyVoted string

type_synonym 'a Result = "error + 'a"

definition is_Err :: "'a Result \<Rightarrow> bool" where
  "is_Err r = (case r of Inl e \<Rightarrow> True | Inr v \<Rightarrow> False)"

subsection \<open>The store\<close>

text \<open>
  \<open>proposalStorage\<close> is a \<open>StableBTreeMap<string, Proposal>\<close> of the platform,
  used through \<open>get\<close>, \<open>insert\<close>, \<open>remove\<close> and \<open>values\<close>. It is modelled as an
  association list passed in and out of every operation and kept in the order of its
  keys, as the B-tree keeps its entries: \<open>insert\<close> replaces the entry of a key that is
  present and otherwise puts the new entry before the first greater key, \<open>remove\<close>
  hands back the entry it removed, \<open>values\<close> lists the entries by key. Keys are
  compared as strings, character by character. The size limits that the platform puts
  on keys and values (44 and 1024 bytes of the encoded form) are outside this model.
\<close>

type_synonym storage = "(string \<times> Proposal) list"

definition storage_get :: "storage \<Rightarrow> string \<Rightarrow> Proposal option" where
  "storage_get s k = map_of s k"

fun storage_insert :: "string \<Rightarrow> Proposal \<Rightarrow> storage \<Rightarrow> storage" where
  "storage_insert k v [] = [(k, v)]"
| "storage_insert k v ((a, b) # s) =
     (if k = a then (k, v) # s
      else if k < a then (k, v) # (a, b) # s
      else (a, b) # storage_insert k v s)"

definition storage_remove :: "string \<Rightarrow> storage \<Rightarrow> Proposal option \<times> storage" where
  "storage_remove k s = (map_of s k, AList.delete k s)"

definition storage_values :: "storage \<Rightarrow> Proposal list" where
  "storage_values s = map snd s"

text \<open>
  What a call reads from its surroundings: \<open>ic.caller()\<close>, \<open>ic.time()\<close> and the
  string that \<open>uuidv4()\<close> returns.
\<close>

record environment =
  caller :: Principal
  time :: nat64
  uuidv4 :: string

subsection \<open>Operations\<close>

definition getProposals :: "storage \<Rightarrow> Proposal list Result" where
  "getProposals s = Inr (storage_values s)"

definition getProposal :: "string \<Rightarrow> storage \<Rightarrow> Proposal Result" where
  "getProposal k s =
     (case storage_get s k of
        Some proposal \<Rightarrow> Inr proposal
      | None \<Rightarrow> Inl (NotFound (''A proposal with id='' @ k @ '' not found'')))"

text \<open>\<open>!title\<close> on a string holds exactly for the empty string.\<close>

definition createProposal ::
  "environment \<Rightarrow> ProposalPayload \<Rightarrow> storage \<Rightarrow> Proposal Result \<times> storage" where
  "createProposal ctx payload s =
     (if payload_title payload = [] \<or> payload_description payload = []
      then (Inl (InvalidInput ''Missing required fields''), s)
      else
        let proposal = \<lparr> owner = caller ctx,
                         id' = uuidv4 ctx,
                         title = payload_title payload,
                         description = payload_description payload,
                         voters = [],
                         yesVotes = 0,
                         noVotes = 0,
                         created_at = time ctx,
                         updated_at = None \<rparr>
        in (Inr proposal, storage_insert (id' proposal) proposal s))"

definition voteYes :: "environment \<Rightarrow> string \<Rightarrow> storage \<Rightarrow> Proposal Result \<times> storage" where
  "voteYes ctx k s =
     (case storage_get s k of
        Some proposal \<Rightarrow>
          if toString (owner proposal) = toString (caller ctx)
          then (Inl (Forbidden ''Owners cannot vote for their own proposal''), s)
          else
            let hasVoted = (toString (caller ctx) \<in> set (voters proposal)) in
            if hasVoted then (Inl (AlreadyVoted ''Already voted''), s)
            else
              let updatedProposal =
                    proposal\<lparr> yesVotes := plus_one (yesVotes proposal),
                              updated_at := Some (time ctx) \<rparr>
              in (Inr updatedProposal, storage_insert (id' proposal) updatedProposal s)
      | None \<Rightarrow>
          (Inl (NotFound (''Couldn't update a proposal with id='' @ k @ ''. Proposal not found'')), s))"

definition voteNo :: "environment \<Rightarrow> string \<Rightarrow> storage \<Rightarrow> Proposal Result \<times> storage" where
  "voteNo ctx k s =
     (case storage_get s k of
        Some proposal \<Rightarrow>
          if toString (owner proposal) = toString (caller ctx)
          then (Inl (Forbidden ''Owners cannot vote for their own proposal''), s)
          else
            let hasVoted = (toString (caller ctx) \<in> set (voters proposal)) in
            if hasVoted then (Inl (AlreadyVoted ''Already voted''), s)
            else
              let updatedProposal =
                    proposal\<lparr> noVotes := plus_one (noVotes proposal),
                              updated_at := Some (time ctx) \<rparr>
              in (Inr updatedProposal, storage_insert (id' proposal) updatedProposal s)
      | None \<Rightarrow>
          (Inl (NotFound (''Couldn't update a proposal with id='' @ k @ ''. Proposal not found'')), s))"

definition updateProposal ::
  "environment \<Rightarrow> string \<Rightarrow> ProposalPayload \<Rightarrow> storage \<Rightarrow> Proposal Result \<times> storage" where
  "updateProposal ctx k payload s =
     (case storage_get s k of
        Some proposal \<Rightarrow>
          if toString (owner proposal) \<noteq> toString (caller ctx)
          then (Inl (Forbidden ''Only the owner of a proposal can update it''), s)
          else
            let updatedProposal =
                  proposal\<lparr> title := payload_title payload,
                            description := payload_description payload,
                            updated_at := Some (time ctx) \<rparr>
            in (Inr updatedProposal, storage_insert (id' proposal) updatedProposal s)
      | None \<Rightarrow>
          (Inl (NotFound (''Couldn't update a proposal with id='' @ k @ ''. Proposal not found'')), s))"

definition deleteProposal :: "string \<Rightarrow> storage \<Rightarrow> Proposal Result \<times> storage" where
  "deleteProposal k s =
     (case storage_remove k s of
        (Some deletedProposal, s') \<Rightarrow> (Inr deletedProposal, s')
      | (None, s') \<Rightarrow>
          (Inl (NotFound (''Couldn't delete a proposal with id='' @ k @ ''. Proposal not found.'')), s'))"

subsection \<open>The canister as a state machine\<close>

text \<open>
  The seven exported functions are the canister's interface. A call names one of them
  with its arguments; \<open>perform\<close> runs it on the store, in the context of the call, and
  \<open>run\<close> runs a sequence of calls one after the other. The canister starts with the
  empty store.
\<close>

datatype call =
    GetProposals
  | GetProposal string
  | CreateProposal ProposalPayload
  | VoteYes string
  | VoteNo string
  | UpdateProposal string ProposalPayload
  | DeleteProposal string

datatype reply =
    Many "Proposal list Result"
  | One "Proposal Result"

fun failed :: "reply \<Rightarrow> bool" where
  "failed (Many r) = is_Err r"
| "failed (One r) = is_Err r"

fun perform :: "environment \<Rightarrow> call \<Rightarrow> storage \<Rightarrow> reply \<times> storage" where
  "perform ctx GetProposals s = (Many (getProposals s), s)"
| "perform ctx (GetProposal k) s = (One (getProposal k s), s)"
| "perform ctx (CreateProposal payload) s =
     (case createProposal ctx payload s of (r, s') \<Rightarrow> (One r, s'))"
| "perform ctx (VoteYes k) s = (case voteYes ctx k s of (r, s') \<Rightarrow> (One r, s'))"
| "perform ctx (VoteNo k) s = (case voteNo ctx k s of (r, s') \<Rightarrow> (One r, s'))"
| "perform ctx (UpdateProposal k payload) s =
     (case updateProposal ctx k payload s of (r, s') \<Rightarrow> (One r, s'))"
| "perform ctx (DeleteProposal k) s = (case deleteProposal k s of (r, s') \<Rightarrow> (One r, s'))"

fun run :: "(environment \<times> call) list \<Rightarrow> storage \<Rightarrow> storage" where
  "run [] s = s"
| "run ((ctx, c) # cs) s = run cs (snd (perform ctx c s))"

definition initial :: storage where
  "initial = []"


section \<open>Properties\<close>

subsection \<open>Counters\<close>

text \<open>The rounding of \<open>plus_one\<close> at and above \<open>2^53\<close>.\<close>

lemma plus_one_rounding:
  "plus_one (2 ^ 53 - 1) = 2 ^ 53"
  "plus_one (2 ^ 53) = 2 ^ 53"
  "plus_one (2 ^ 53 + 2) = 2 ^ 53 + 4"
  "plus_one (2 ^ 54) = 2 ^ 54"
  by (simp_all add: plus_one_def)

subsection \<open>Facts about the store\<close>

text \<open>An entry goes to the place of its key, whenever it is inserted.\<close>

lemma storage_insert_by_key:
  "map fst (storage_insert ''b'' v (storage_insert ''a'' w (storage_insert ''c'' u [])))
   = [''a'', ''b'', ''c'']"
  by simp

lemma storage_get_insert:
  "storage_get (storage_insert k v s) k' = (if k' = k then Some v else storage_get s k')"
  unfolding storage_get_def
  by (induction k v s rule: storage_insert.induct) auto

lemma storage_remove_get:
  "storage_get (snd (storage_remove k s)) k' = (if k' = k then None else storage_get s k')"
  by (simp add: storage_get_def storage_remove_def delete_conv')

lemma storage_remove_result: "fst (storage_remove k s) = storage_get s k"
  by (simp add: storage_get_def storage_remove_def)

lemma storage_remove_absent:
  "storage_get s k = None \<Longrightarrow> snd (storage_remove k s) = s"
  by (simp add: storage_get_def storage_remove_def map_of_eq_None_iff)

lemma storage_get_entry: "storage_get s k = Some p \<Longrightarrow> (k, p) \<in> set s"
  by (simp add: storage_get_def map_of_SomeD)

lemma storage_insert_entries: "set (storage_insert k v s) \<subseteq> insert (k, v) (set s)"
  by (induction k v s rule: storage_insert.induct) auto

text \<open>A store whose keys ascend keeps them ascending.\<close>

lemma storage_insert_keys:
  "fst ` set (storage_insert k v s) = insert k (fst ` set s)"
  by (induction k v s rule: storage_insert.induct) auto

lemma storage_insert_ordered:
  "sorted_wrt (<) (map fst s) \<Longrightarrow> sorted_wrt (<) (map fst (storage_insert k v s))"
proof (induction k v s rule: storage_insert.induct)
  case (1 k v)
  then show ?case by simp
next
  case (2 k v a b s)
  show ?case
  proof (cases "k = a \<or> k < a")
    case True
    with "2.prems" show ?thesis by auto
  next
    case False
    then have "a < k" by auto
    moreover from "2.prems" have "\<forall>x \<in> fst ` set s. a < x" by auto
    ultimately have "\<forall>x \<in> fst ` set (storage_insert k v s). a < x"
      by (simp add: storage_insert_keys)
    moreover from False "2.IH" "2.prems" have "sorted_wrt (<) (map fst (storage_insert k v s))"
      by simp
    ultimately show ?thesis using False by simp
  qed
qed

lemma storage_remove_ordered:
  "sorted_wrt (<) (map fst s) \<Longrightarrow> sorted_wrt (<) (map fst (snd (storage_remove k s)))"
  by (induction s) (auto simp add: storage_remove_def AList.delete_eq)

lemma storage_remove_entries: "set (snd (storage_remove k s)) \<subseteq> set s"
  by (auto simp add: storage_remove_def AList.delete_eq)

subsection \<open>What each operation does\<close>

lemma voteYes_cases:
  "voteYes ctx k s =
     (case storage_get s k of
        None \<Rightarrow> (Inl (NotFound (''Couldn't update a proposal with id='' @ k @ ''. Proposal not found'')), s)
      | Some p \<Rightarrow>
          if owner p = caller ctx
          then (Inl (Forbidden ''Owners cannot vote for their own proposal''), s)
          else if toString (caller ctx) \<in> set (voters p)
          then (Inl (AlreadyVoted ''Already voted''), s)
          else (Inr (p\<lparr>yesVotes := plus_one (yesVotes p), updated_at := Some (time ctx)\<rparr>),
                storage_insert (id' p) (p\<lparr>yesVotes := plus_one (yesVotes p), updated_at := Some (time ctx)\<rparr>) s))"
  by (simp add: voteYes_def Let_def Principal.expand split: option.splits)

lemma voteNo_cases:
  "voteNo ctx k s =
     (case storage_get s k of
        None \<Rightarrow> (Inl (NotFound (''Couldn't update a proposal with id='' @ k @ ''. Proposal not found'')), s)
      | Some p \<Rightarrow>
          if owner p = caller ctx
          then (Inl (Forbidden ''Owners cannot vote for their own proposal''), s)
          else if toString (caller ctx) \<in> set (voters p)
          then (Inl (AlreadyVoted ''Already voted''), s)
          else (Inr (p\<lparr>noVotes := plus_one (noVotes p), updated_at := Some (time ctx)\<rparr>),
                storage_insert (id' p) (p\<lparr>noVotes := plus_one (noVotes p), updated_at := Some (time ctx)\<rparr>) s))"
  by (simp add: voteNo_def Let_def Principal.expand split: option.splits)

lemma updateProposal_cases:
  "updateProposal ctx k payload s =
     (case storage_get s k of
        None \<Rightarrow> (Inl (NotFound (''Couldn't update a proposal with id='' @ k @ ''. Proposal not found'')), s)
      | Some p \<Rightarrow>
          if owner p \<noteq> caller ctx
          then (Inl (Forbidden ''Only the owner of a proposal can update it''), s)
          else (Inr (p\<lparr>title := payload_title payload, description := payload_description payload,
                       updated_at := Some (time ctx)\<rparr>),
                storage_insert (id' p)
                  (p\<lparr>title := payload_title payload, description := payload_description payload,
                     updated_at := Some (time ctx)\<rparr>) s))"
  by (simp add: updateProposal_def Let_def Principal.expand split: option.splits)

lemma deleteProposal_cases:
  "deleteProposal k s =
     (case storage_get s k of
        None \<Rightarrow> (Inl (NotFound (''Couldn't delete a proposal with id='' @ k @ ''. Proposal not found.'')), s)
      | Some p \<Rightarrow> (Inr p, snd (storage_remove k s)))"
proof (cases "storage_get s k")
  case None
  then show ?thesis
    using storage_remove_absent [of s k] storage_remove_result [of k s]
    by (cases "storage_remove k s") (simp add: deleteProposal_def)
next
  case (Some p)
  then show ?thesis
    using storage_remove_result [of k s]
    by (cases "storage_remove k s") (simp add: deleteProposal_def)
qed

subsection \<open>Failed calls\<close>

lemma createProposal_failed:
  "is_Err (fst (createProposal ctx payload s)) \<Longrightarrow> snd (createProposal ctx payload s) = s"
  by (cases "payload_title payload = [] \<or> payload_description payload = []")
    (simp_all add: createProposal_def Let_def is_Err_def)

lemma voteYes_failed: "is_Err (fst (voteYes ctx k s)) \<Longrightarrow> snd (voteYes ctx k s) = s"
  by (simp add: voteYes_cases is_Err_def split: option.splits if_splits)

lemma voteNo_failed: "is_Err (fst (voteNo ctx k s)) \<Longrightarrow> snd (voteNo ctx k s) = s"
  by (simp add: voteNo_cases is_Err_def split: option.splits if_splits)

lemma updateProposal_failed:
  "is_Err (fst (updateProposal ctx k payload s)) \<Longrightarrow> snd (updateProposal ctx k payload s) = s"
  by (simp add: updateProposal_cases is_Err_def split: option.splits if_splits)

lemma deleteProposal_failed:
  "is_Err (fst (deleteProposal k s)) \<Longrightarrow> snd (deleteProposal k s) = s"
  by (simp add: deleteProposal_cases is_Err_def split: option.splits)

lemma perform_failed: "failed (fst (perform ctx c s)) \<Longrightarrow> snd (perform ctx c s) = s"
proof (cases c)
  case (CreateProposal payload)
  then show "failed (fst (perform ctx c s)) \<Longrightarrow> snd (perform ctx c s) = s"
    using createProposal_failed [of ctx payload s] by (simp add: case_prod_beta)
next
  case (VoteYes k)
  then show "failed (fst (perform ctx c s)) \<Longrightarrow> snd (perform ctx c s) = s"
    using voteYes_failed [of ctx k s] by (simp add: case_prod_beta)
next
  case (VoteNo k)
  then show "failed (fst (perform ctx c s)) \<Longrightarrow> snd (perform ctx c s) = s"
    using voteNo_failed [of ctx k s] by (simp add: case_prod_beta)
next
  case (UpdateProposal k payload)
  then show "failed (fst (perform ctx c s)) \<Longrightarrow> snd (perform ctx c s) = s"
    using updateProposal_failed [of ctx k payload s] by (simp add: case_prod_beta)
next
  case (DeleteProposal k)
  then show "failed (fst (perform ctx c s)) \<Longrightarrow> snd (perform ctx c s) = s"
    using deleteProposal_failed [of k s] by (simp add: case_prod_beta)
qed simp_all

subsection \<open>Keys and ids\<close>

lemma perform_keys:
  assumes "\<forall>(k, p) \<in> set s. id' p = k"
  shows "\<forall>(k, p) \<in> set (snd (perform ctx c s)). id' p = k"
proof (cases c)
  case GetProposals
  with assms show ?thesis by simp
next
  case (GetProposal k)
  with assms show ?thesis by simp
next
  case (CreateProposal payload)
  with assms show ?thesis
    using storage_insert_entries
    by (fastforce simp add: createProposal_def Let_def case_prod_beta split: if_splits)
next
  case (VoteYes k)
  with assms show ?thesis
    using storage_insert_entries
    by (fastforce simp add: voteYes_cases case_prod_beta split: option.splits if_splits)
next
  case (VoteNo k)
  with assms show ?thesis
    using storage_insert_entries
    by (fastforce simp add: voteNo_cases case_prod_beta split: option.splits if_splits)
next
  case (UpdateProposal k payload)
  with assms show ?thesis
    using storage_insert_entries
    by (fastforce simp add: updateProposal_cases case_prod_beta split: option.splits if_splits)
next
  case (DeleteProposal k)
  with assms show ?thesis
    using storage_remove_entries [of k s]
    by (fastforce simp add: deleteProposal_cases case_prod_beta split: option.splits)
qed

text \<open>Every store reached from the empty one has its keys in ascending order.\<close>

lemma perform_ordered:
  assumes "sorted_wrt (<) (map fst s)"
  shows "sorted_wrt (<) (map fst (snd (perform ctx c s)))"
proof (cases c)
  case (CreateProposal payload)
  with assms show ?thesis
    by (simp add: createProposal_def Let_def storage_insert_ordered)
next
  case (VoteYes k)
  with assms show ?thesis
    by (simp add: voteYes_cases storage_insert_ordered split: option.splits)
next
  case (VoteNo k)
  with assms show ?thesis
    by (simp add: voteNo_cases storage_insert_ordered split: option.splits)
next
  case (UpdateProposal k payload)
  with assms show ?thesis
    by (simp add: updateProposal_cases storage_insert_ordered split: option.splits)
next
  case (DeleteProposal k)
  with assms show ?thesis
    by (simp add: deleteProposal_cases storage_remove_ordered split: option.splits)
qed (use assms in simp_all)

lemma run_ordered:
  "sorted_wrt (<) (map fst s) \<Longrightarrow> sorted_wrt (<) (map fst (run cs s))"
proof (induction cs arbitrary: s)
  case Nil
  then show ?case by simp
next
  case (Cons x cs)
  then show ?case by (cases x) (simp add: perform_ordered)
qed

lemma run_keys:
  "\<forall>(k, p) \<in> set s. id' p = k \<Longrightarrow> \<forall>(k, p) \<in> set (run cs s). id' p = k"
proof (induction cs arbitrary: s)
  case Nil
  then show ?case by simp
next
  case (Cons x cs)
  obtain ctx c where x: "x = (ctx, c)" by (cases x)
  from Cons.prems have "\<forall>(k, p) \<in> set (snd (perform ctx c s)). id' p = k"
    by (rule perform_keys)
  then have "\<forall>(k, p) \<in> set (run cs (snd (perform ctx c s))). id' p = k"
    by (rule Cons.IH)
  with x show ?case by simp
qed



subsection \<open>A vote leaves the list of voters as it was\<close>

text \<open>
  \<open>voteYes\<close> and \<open>voteNo\<close> read \<open>proposal.voters\<close> to refuse a second vote, but the
  record they store is \<open>{...proposal, yesVotes: ..., updated_at: ...}\<close>: the caller is
  never added to \<open>voters\<close>, and no other function writes that field.
\<close>

lemma voteYes_voters:
  "storage_get s k = Some p \<Longrightarrow> voteYes ctx k s = (Inr p', s') \<Longrightarrow> voters p' = voters p"
  by (auto simp add: voteYes_cases split: if_splits)

lemma voteNo_voters:
  "storage_get s k = Some p \<Longrightarrow> voteNo ctx k s = (Inr p', s') \<Longrightarrow> voters p' = voters p"
  by (auto simp add: voteNo_cases split: if_splits)

subsection \<open>Votes and voters\<close>

text \<open>
  Claim C1: in every state reachable through the operations, every stored proposal has
  \<open>yesVotes + noVotes\<close> equal to the number of its voters.

  The source does not keep this: after \<open>createProposal\<close> by one principal and \<open>voteYes\<close>
  by another, the only stored proposal has one vote and no voter.
\<close>

theorem vote_count_differs_from_voters:
  "map (\<lambda>p. (yesVotes p + noVotes p, length (voters p)))
     (storage_values
        (run [(\<lparr>caller = Principal ''aaaaa-aa'', time = 100, uuidv4 = ''X''\<rparr>,
               CreateProposal \<lparr>payload_title = ''T'', payload_description = ''D''\<rparr>),
              (\<lparr>caller = Principal ''2vxsx-fae'', time = 200, uuidv4 = ''Y''\<rparr>,
               VoteYes ''X'')]
           initial))
   = [(1, 0)]"
  by (simp add: initial_def createProposal_def voteYes_def storage_get_def
      storage_values_def plus_one_def Let_def)

text \<open>
  Claim C2: a successful \<open>voteYes\<close> (\<open>voteNo\<close>) by a caller who is not the owner and has
  not voted adds the caller to the voters of the stored proposal, adds one to \<open>yesVotes\<close>
  (\<open>noVotes\<close>), sets \<open>updated_at\<close>, stores the record under the same id and returns it.

  The source does all of this except the first: the returned and stored record has the
  voters it had before, here none.
\<close>

theorem vote_does_not_record_voter:
  "voteYes \<lparr>caller = Principal ''2vxsx-fae'', time = 200, uuidv4 = ''Y''\<rparr> ''X''
     [(''X'', \<lparr>owner = Principal ''aaaaa-aa'', id' = ''X'', title = ''T'', description = ''D'',
               voters = [], yesVotes = 0, noVotes = 0, created_at = 100, updated_at = None\<rparr>)]
   = (Inr \<lparr>owner = Principal ''aaaaa-aa'', id' = ''X'', title = ''T'', description = ''D'',
            voters = [], yesVotes = 1, noVotes = 0, created_at = 100, updated_at = Some 200\<rparr>,
      [(''X'', \<lparr>owner = Principal ''aaaaa-aa'', id' = ''X'', title = ''T'', description = ''D'',
                voters = [], yesVotes = 1, noVotes = 0, created_at = 100, updated_at = Some 200\<rparr>)])
   \<and>
   voteNo \<lparr>caller = Principal ''2vxsx-fae'', time = 200, uuidv4 = ''Y''\<rparr> ''X''
     [(''X'', \<lparr>owner = Principal ''aaaaa-aa'', id' = ''X'', title = ''T'', description = ''D'',
               voters = [], yesVotes = 0, noVotes = 0, created_at = 100, updated_at = None\<rparr>)]
   = (Inr \<lparr>owner = Principal ''aaaaa-aa'', id' = ''X'', title = ''T'', description = ''D'',
            voters = [], yesVotes = 0, noVotes = 1, created_at = 100, updated_at = Some 200\<rparr>,
      [(''X'', \<lparr>owner = Principal ''aaaaa-aa'', id' = ''X'', title = ''T'', description = ''D'',
                voters = [], yesVotes = 0, noVotes = 1, created_at = 100, updated_at = Some 200\<rparr>)])"
  by (simp add: voteYes_def voteNo_def storage_get_def plus_one_def Let_def)

text \<open>
  Claim C3: \<open>voteYes\<close> twice by the same caller, who is not the owner, on the same
  proposal succeeds the first time and fails with \<open>AlreadyVoted\<close> the second time,
  leaving counters and voters as they were.

  In the source the second call succeeds as the first did and counts a second vote,
  since the first call left \<open>voters\<close> empty.
\<close>

theorem second_vote_accepted:
  "fst (voteYes \<lparr>caller = Principal ''2vxsx-fae'', time = 200, uuidv4 = ''Y''\<rparr> ''X''
     [(''X'', \<lparr>owner = Principal ''aaaaa-aa'', id' = ''X'', title = ''T'', description = ''D'',
               voters = [], yesVotes = 0, noVotes = 0, created_at = 100, updated_at = None\<rparr>)])
   = Inr \<lparr>owner = Principal ''aaaaa-aa'', id' = ''X'', title = ''T'', description = ''D'',
           voters = [], yesVotes = 1, noVotes = 0, created_at = 100, updated_at = Some 200\<rparr>
   \<and>
   voteYes \<lparr>caller = Principal ''2vxsx-fae'', time = 300, uuidv4 = ''Z''\<rparr> ''X''
     (snd (voteYes \<lparr>caller = Principal ''2vxsx-fae'', time = 200, uuidv4 = ''Y''\<rparr> ''X''
        [(''X'', \<lparr>owner = Principal ''aaaaa-aa'', id' = ''X'', title = ''T'', description = ''D'',
                  voters = [], yesVotes = 0, noVotes = 0, created_at = 100, updated_at = None\<rparr>)]))
   = (Inr \<lparr>owner = Principal ''aaaaa-aa'', id' = ''X'', title = ''T'', description = ''D'',
            voters = [], yesVotes = 2, noVotes = 0, created_at = 100, updated_at = Some 300\<rparr>,
      [(''X'', \<lparr>owner = Principal ''aaaaa-aa'', id' = ''X'', title = ''T'', description = ''D'',
                voters = [], yesVotes = 2, noVotes = 0, created_at = 100, updated_at = Some 300\<rparr>)])"
  by (simp add: voteYes_def storage_get_def plus_one_def Let_def)

text \<open>
  Claim C4: when the caller is the stored owner of a proposal, \<open>voteYes\<close> and \<open>voteNo\<close>
  on its id fail with \<open>Forbidden\<close>, whatever votes the proposal has had, and the store
  stays as it was.
\<close>

theorem owner_cannot_vote:
  assumes "storage_get s k = Some p" and "owner p = caller ctx"
  shows "voteYes ctx k s = (Inl (Forbidden ''Owners cannot vote for their own proposal''), s)
       \<and> voteNo ctx k s = (Inl (Forbidden ''Owners cannot vote for their own proposal''), s)"
  using assms by (simp add: voteYes_cases voteNo_cases)

theorem owner_cannot_vote_witness:
  "storage_get
     [(''X'', \<lparr>owner = Principal ''aaaaa-aa'', id' = ''X'', title = ''T'', description = ''D'',
               voters = [''2vxsx-fae''], yesVotes = 3, noVotes = 2, created_at = 100,
               updated_at = Some 150\<rparr>)] ''X''
   = Some \<lparr>owner = Principal ''aaaaa-aa'', id' = ''X'', title = ''T'', description = ''D'',
            voters = [''2vxsx-fae''], yesVotes = 3, noVotes = 2, created_at = 100,
            updated_at = Some 150\<rparr>
   \<and> voteYes \<lparr>caller = Principal ''aaaaa-aa'', time = 200, uuidv4 = ''Y''\<rparr> ''X''
     [(''X'', \<lparr>owner = Principal ''aaaaa-aa'', id' = ''X'', title = ''T'', description = ''D'',
               voters = [''2vxsx-fae''], yesVotes = 3, noVotes = 2, created_at = 100,
               updated_at = Some 150\<rparr>)]
   = (Inl (Forbidden ''Owners cannot vote for their own proposal''),
      [(''X'', \<lparr>owner = Principal ''aaaaa-aa'', id' = ''X'', title = ''T'', description = ''D'',
                voters = [''2vxsx-fae''], yesVotes = 3, noVotes = 2, created_at = 100,
                updated_at = Some 150\<rparr>)])
   \<and> voteNo \<lparr>caller = Principal ''aaaaa-aa'', time = 200, uuidv4 = ''Y''\<rparr> ''X''
     [(''X'', \<lparr>owner = Principal ''aaaaa-aa'', id' = ''X'', title = ''T'', description = ''D'',
               voters = [''2vxsx-fae''], yesVotes = 3, noVotes = 2, created_at = 100,
               updated_at = Some 150\<rparr>)]
   = (Inl (Forbidden ''Owners cannot vote for their own proposal''),
      [(''X'', \<lparr>owner = Principal ''aaaaa-aa'', id' = ''X'', title = ''T'', description = ''D'',
                voters = [''2vxsx-fae''], yesVotes = 3, noVotes = 2, created_at = 100,
                updated_at = Some 150\<rparr>)])"
  using owner_cannot_vote
    [of "[(''X'', \<lparr>owner = Principal ''aaaaa-aa'', id' = ''X'', title = ''T'', description = ''D'',
                   voters = [''2vxsx-fae''], yesVotes = 3, noVotes = 2, created_at = 100,
                   updated_at = Some 150\<rparr>)]"
        "''X''"
        "\<lparr>owner = Principal ''aaaaa-aa'', id' = ''X'', title = ''T'', description = ''D'',
          voters = [''2vxsx-fae''], yesVotes = 3, noVotes = 2, created_at = 100,
          updated_at = Some 150\<rparr>"
        "\<lparr>caller = Principal ''aaaaa-aa'', time = 200, uuidv4 = ''Y''\<rparr>"]
  by (simp add: storage_get_def)

subsection \<open>Creating, updating and deleting\<close>




text \<open>
  Claim C6: on the id of a stored proposal, \<open>updateProposal\<close> by a caller who is not the
  owner fails with \<open>Forbidden\<close> and changes nothing; by the owner it succeeds, the record
  it returns and stores has the title and description supplied and \<open>updated_at\<close> set to
  the current time, and id, owner, voters, both counters and \<open>created_at\<close> are those of
  the record before.
\<close>

theorem updateProposal_owner_only:
  assumes "storage_get s k = Some p"
  shows "(owner p \<noteq> caller ctx \<longrightarrow>
            updateProposal ctx k payload s
              = (Inl (Forbidden ''Only the owner of a proposal can update it''), s))
       \<and> (owner p = caller ctx \<longrightarrow>
            (\<exists>p' s'. updateProposal ctx k payload s = (Inr p', s')
               \<and> title p' = payload_title payload
               \<and> description p' = payload_description payload
               \<and> updated_at p' = Some (time ctx)
               \<and> id' p' = id' p
               \<and> owner p' = owner p
               \<and> voters p' = voters p
               \<and> yesVotes p' = yesVotes p
               \<and> noVotes p' = noVotes p
               \<and> created_at p' = created_at p
               \<and> storage_get s' (id' p) = Some p'
               \<and> (\<forall>k'. k' \<noteq> id' p \<longrightarrow> storage_get s' k' = storage_get s k')))"
  using assms by (simp add: updateProposal_cases storage_get_insert)

theorem updateProposal_owner_only_witness:
  "updateProposal \<lparr>caller = Principal ''2vxsx-fae'', time = 200, uuidv4 = ''Y''\<rparr> ''X''
     \<lparr>payload_title = ''T2'', payload_description = ''D2''\<rparr>
     [(''X'', \<lparr>owner = Principal ''aaaaa-aa'', id' = ''X'', title = ''T'', description = ''D'',
               voters = [], yesVotes = 1, noVotes = 0, created_at = 100, updated_at = Some 150\<rparr>)]
   = (Inl (Forbidden ''Only the owner of a proposal can update it''),
      [(''X'', \<lparr>owner = Principal ''aaaaa-aa'', id' = ''X'', title = ''T'', description = ''D'',
                voters = [], yesVotes = 1, noVotes = 0, created_at = 100, updated_at = Some 150\<rparr>)])
   \<and> fst (updateProposal \<lparr>caller = Principal ''aaaaa-aa'', time = 200, uuidv4 = ''Y''\<rparr> ''X''
       \<lparr>payload_title = ''T2'', payload_description = ''D2''\<rparr>
       [(''X'', \<lparr>owner = Principal ''aaaaa-aa'', id' = ''X'', title = ''T'', description = ''D'',
                 voters = [], yesVotes = 1, noVotes = 0, created_at = 100, updated_at = Some 150\<rparr>)])
   = Inr \<lparr>owner = Principal ''aaaaa-aa'', id' = ''X'', title = ''T2'', description = ''D2'',
           voters = [], yesVotes = 1, noVotes = 0, created_at = 100, updated_at = Some 200\<rparr>"
proof -
  let ?p = "\<lparr>owner = Principal ''aaaaa-aa'', id' = ''X'', title = ''T'', description = ''D'',
             voters = [], yesVotes = 1, noVotes = 0, created_at = 100, updated_at = Some 150\<rparr>"
  let ?s = "[(''X'', ?p)]"
  let ?payload = "\<lparr>payload_title = ''T2'', payload_description = ''D2''\<rparr>"
  let ?other = "\<lparr>caller = Principal ''2vxsx-fae'', time = 200, uuidv4 = ''Y''\<rparr>"
  let ?self = "\<lparr>caller = Principal ''aaaaa-aa'', time = 200, uuidv4 = ''Y''\<rparr>"
  have stored: "storage_get ?s ''X'' = Some ?p"
    by (simp add: storage_get_def)
  have "owner ?p \<noteq> caller ?other" by simp
  with updateProposal_owner_only [OF stored, of ?other ?payload]
  have refused: "updateProposal ?other ''X'' ?payload ?s
      = (Inl (Forbidden ''Only the owner of a proposal can update it''), ?s)"
    by blast
  have "owner ?p = caller ?self" by simp
  with updateProposal_owner_only [OF stored, of ?self ?payload]
  obtain p' s' where updated: "updateProposal ?self ''X'' ?payload ?s = (Inr p', s')"
    and fields: "title p' = ''T2''" "description p' = ''D2''" "updated_at p' = Some 200"
      "id' p' = ''X''" "owner p' = Principal ''aaaaa-aa''" "voters p' = []"
      "yesVotes p' = 1" "noVotes p' = 0" "created_at p' = 100"
    by auto
  from fields have "p' = \<lparr>owner = Principal ''aaaaa-aa'', id' = ''X'', title = ''T2'',
      description = ''D2'', voters = [], yesVotes = 1, noVotes = 0, created_at = 100,
      updated_at = Some 200\<rparr>"
    by (cases p') simp
  with refused updated show ?thesis by simp
qed

text \<open>
  Claim C7: \<open>deleteProposal\<close> on an id that is in the store removes the record and
  returns it, whoever the caller is, and \<open>getProposal\<close> on that id then fails with
  \<open>NotFound\<close>; on an id that is not in the store it fails with \<open>NotFound\<close> and the store
  stays as it was.
\<close>

theorem deleteProposal_removes:
  "(storage_get s k = Some p \<longrightarrow>
      (\<exists>s'. perform ctx (DeleteProposal k) s = (One (Inr p), s')
         \<and> getProposal k s' = Inl (NotFound (''A proposal with id='' @ k @ '' not found''))
         \<and> (\<forall>k'. k' \<noteq> k \<longrightarrow> storage_get s' k' = storage_get s k')))
   \<and> (storage_get s k = None \<longrightarrow>
        perform ctx (DeleteProposal k) s
          = (One (Inl (NotFound
               (''Couldn't delete a proposal with id='' @ k @ ''. Proposal not found.''))), s))"
  by (simp add: deleteProposal_cases getProposal_def storage_remove_get)

theorem deleteProposal_removes_witness:
  "perform \<lparr>caller = Principal ''2vxsx-fae'', time = 200, uuidv4 = ''Y''\<rparr> (DeleteProposal ''X'')
     [(''X'', \<lparr>owner = Principal ''aaaaa-aa'', id' = ''X'', title = ''T'', description = ''D'',
               voters = [], yesVotes = 0, noVotes = 0, created_at = 100, updated_at = None\<rparr>)]
   = (One (Inr \<lparr>owner = Principal ''aaaaa-aa'', id' = ''X'', title = ''T'', description = ''D'',
                 voters = [], yesVotes = 0, noVotes = 0, created_at = 100, updated_at = None\<rparr>),
      [])
   \<and> getProposal ''X'' [] = Inl (NotFound ''A proposal with id=X not found'')
   \<and> perform \<lparr>caller = Principal ''2vxsx-fae'', time = 200, uuidv4 = ''Y''\<rparr> (DeleteProposal ''Z'')
     [(''X'', \<lparr>owner = Principal ''aaaaa-aa'', id' = ''X'', title = ''T'', description = ''D'',
               voters = [], yesVotes = 0, noVotes = 0, created_at = 100, updated_at = None\<rparr>)]
   = (One (Inl (NotFound ''Couldn't delete a proposal with id=Z. Proposal not found.'')),
      [(''X'', \<lparr>owner = Principal ''aaaaa-aa'', id' = ''X'', title = ''T'', description = ''D'',
                voters = [], yesVotes = 0, noVotes = 0, created_at = 100, updated_at = None\<rparr>)])"
proof -
  let ?p = "\<lparr>owner = Principal ''aaaaa-aa'', id' = ''X'', title = ''T'', description = ''D'',
             voters = [], yesVotes = 0, noVotes = 0, created_at = 100, updated_at = None\<rparr>"
  let ?s = "[(''X'', ?p)]"
  let ?other = "\<lparr>caller = Principal ''2vxsx-fae'', time = 200, uuidv4 = ''Y''\<rparr>"
  have present: "storage_get ?s ''X'' = Some ?p" and absent: "storage_get ?s ''Z'' = None"
    by (simp_all add: storage_get_def)
  from present deleteProposal_removes [of ?s "''X''" ?p ?other]
  obtain s' where removed: "perform ?other (DeleteProposal ''X'') ?s = (One (Inr ?p), s')"
    and gone: "getProposal ''X'' s' = Inl (NotFound (''A proposal with id='' @ ''X'' @ '' not found''))"
    by blast
  have "snd (perform ?other (DeleteProposal ''X'') ?s) = []"
    by (simp add: deleteProposal_def storage_remove_def)
  with removed have "s' = []" by simp
  moreover from absent deleteProposal_removes [of ?s "''Z''" ?p ?other]
  have "perform ?other (DeleteProposal ''Z'') ?s
      = (One (Inl (NotFound
           (''Couldn't delete a proposal with id='' @ ''Z'' @ ''. Proposal not found.''))), ?s)"
    by blast
  ultimately show ?thesis using removed gone by simp
qed

text \<open>
  Claim C8: \<open>updateProposal\<close> by the owner requires a non-empty title and description, as
  \<open>createProposal\<close> does, and fails without changing the stored record when one is empty.

  The source has no such check in \<open>updateProposal\<close>: the owner's update with an empty
  title succeeds and the stored proposal then has an empty title, which
  \<open>createProposal\<close> refuses for the same payload.
\<close>

theorem updateProposal_accepts_empty_title:
  "updateProposal \<lparr>caller = Principal ''aaaaa-aa'', time = 200, uuidv4 = ''Y''\<rparr> ''X''
     \<lparr>payload_title = '''', payload_description = ''D2''\<rparr>
     [(''X'', \<lparr>owner = Principal ''aaaaa-aa'', id' = ''X'', title = ''T'', description = ''D'',
               voters = [], yesVotes = 0, noVotes = 0, created_at = 100, updated_at = None\<rparr>)]
   = (Inr \<lparr>owner = Principal ''aaaaa-aa'', id' = ''X'', title = '''', description = ''D2'',
            voters = [], yesVotes = 0, noVotes = 0, created_at = 100, updated_at = Some 200\<rparr>,
      [(''X'', \<lparr>owner = Principal ''aaaaa-aa'', id' = ''X'', title = '''', description = ''D2'',
                voters = [], yesVotes = 0, noVotes = 0, created_at = 100, updated_at = Some 200\<rparr>)])
   \<and>
   fst (createProposal \<lparr>caller = Principal ''aaaaa-aa'', time = 200, uuidv4 = ''Y''\<rparr>
          \<lparr>payload_title = '''', payload_description = ''D2''\<rparr> [])
   = Inl (InvalidInput ''Missing required fields'')"
  by (simp add: updateProposal_def createProposal_def storage_get_def Let_def)

subsection \<open>Failures and keys\<close>

text \<open>
  Claim C9: whatever the operation, its arguments, the caller and the store, a call that
  returns an error leaves the store as it was.
\<close>

theorem failed_call_keeps_store:
  assumes "perform ctx c s = (r, s')" and "failed r"
  shows "s' = s"
  using assms perform_failed [of ctx c s] by simp

theorem failed_call_keeps_store_witness:
  "perform \<lparr>caller = Principal ''2vxsx-fae'', time = 200, uuidv4 = ''Y''\<rparr>
     (UpdateProposal ''X'' \<lparr>payload_title = ''T2'', payload_description = ''D2''\<rparr>)
     [(''X'', \<lparr>owner = Principal ''aaaaa-aa'', id' = ''X'', title = ''T'', description = ''D'',
               voters = [], yesVotes = 0, noVotes = 0, created_at = 100, updated_at = None\<rparr>)]
   = (One (Inl (Forbidden ''Only the owner of a proposal can update it'')),
      [(''X'', \<lparr>owner = Principal ''aaaaa-aa'', id' = ''X'', title = ''T'', description = ''D'',
                voters = [], yesVotes = 0, noVotes = 0, created_at = 100, updated_at = None\<rparr>)])
   \<and> failed (One (Inl (Forbidden ''Only the owner of a proposal can update it'')))"
proof -
  let ?s = "[(''X'', \<lparr>owner = Principal ''aaaaa-aa'', id' = ''X'', title = ''T'',
      description = ''D'', voters = [], yesVotes = 0, noVotes = 0, created_at = 100,
      updated_at = None\<rparr>)]"
  let ?ctx = "\<lparr>caller = Principal ''2vxsx-fae'', time = 200, uuidv4 = ''Y''\<rparr>"
  let ?c = "UpdateProposal ''X'' \<lparr>payload_title = ''T2'', payload_description = ''D2''\<rparr>"
  let ?r = "One (Inl (Forbidden ''Only the owner of a proposal can update it''))"
  have reply: "fst (perform ?ctx ?c ?s) = ?r"
    by (simp add: updateProposal_def storage_get_def)
  have bad: "failed ?r" by (simp add: is_Err_def)
  have "perform ?ctx ?c ?s = (?r, snd (perform ?ctx ?c ?s))"
    using reply by (simp add: prod_eq_iff)
  from failed_call_keeps_store [OF this bad] reply bad show ?thesis
    by (simp add: prod_eq_iff)
qed

text \<open>
  Claim C10: in every state reached from the empty store by a sequence of calls, a key of
  the store maps to a record whose id is that key.
\<close>

theorem stored_key_is_id:
  assumes "storage_get (run cs initial) k = Some p"
  shows "id' p = k"
proof -
  have "\<forall>(k, p) \<in> set (run cs initial). id' p = k"
    by (rule run_keys) (simp add: initial_def)
  with storage_get_entry [OF assms] show ?thesis by auto
qed

theorem stored_key_is_id_witness:
  "storage_get
     (run [(\<lparr>caller = Principal ''aaaaa-aa'', time = 100, uuidv4 = ''X''\<rparr>,
            CreateProposal \<lparr>payload_title = ''T'', payload_description = ''D''\<rparr>),
           (\<lparr>caller = Principal ''2vxsx-fae'', time = 200, uuidv4 = ''Y''\<rparr>, VoteNo ''X'')]
        initial) ''X''
   = Some \<lparr>owner = Principal ''aaaaa-aa'', id' = ''X'', title = ''T'', description = ''D'',
            voters = [], yesVotes = 0, noVotes = 1, created_at = 100, updated_at = Some 200\<rparr>
   \<and> id' \<lparr>owner = Principal ''aaaaa-aa'', id' = ''X'', title = ''T'', description = ''D'',
           voters = [], yesVotes = 0, noVotes = 1, created_at = 100, updated_at = Some 200\<rparr>
     = ''X''"
proof -
  let ?cs = "[(\<lparr>caller = Principal ''aaaaa-aa'', time = 100, uuidv4 = ''X''\<rparr>,
               CreateProposal \<lparr>payload_title = ''T'', payload_description = ''D''\<rparr>),
              (\<lparr>caller = Principal ''2vxsx-fae'', time = 200, uuidv4 = ''Y''\<rparr>, VoteNo ''X'')]"
  let ?p = "\<lparr>owner = Principal ''aaaaa-aa'', id' = ''X'', title = ''T'', description = ''D'',
             voters = [], yesVotes = 0, noVotes = 1, created_at = 100, updated_at = Some 200\<rparr>"
  have stored: "storage_get (run ?cs initial) ''X'' = Some ?p"
    by (simp add: initial_def createProposal_def voteNo_def storage_get_def
        plus_one_def Let_def)
  from stored stored_key_is_id [OF stored] show ?thesis by simp
qed

end
